theory Spec2Isabelle
  imports Main
begin

type_synonym pystr = "nat list"

definition py :: "string \<Rightarrow> pystr" where
  "py s = map of_char s"

fun startswith :: "pystr \<Rightarrow> pystr \<Rightarrow> bool" where
  "startswith s [] = True"
| "startswith [] (p # ps) = False"
| "startswith (c # s) (p # ps) = (c = p \<and> startswith s ps)"

fun contains :: "pystr \<Rightarrow> pystr \<Rightarrow> bool" where
  "contains sub [] = (sub = [])"
| "contains sub (c # s) = (startswith (c # s) sub \<or> contains sub s)"

definition is_listings_page :: "pystr \<Rightarrow> bool" where
  "is_listings_page html =
     (if contains (py ''a-card__title'') html \<and> contains (py ''a-card__link'') html then True
      else if contains (py ''a-elem'') html \<and>
              (contains (py ''a-el-info-title'') html \<or> contains (py ''a-el-info-price'') html)
           then True
      else False)"

datatype error = ValueError | RequestException

definition in_ranges :: "nat \<Rightarrow> (nat \<times> nat) list \<Rightarrow> bool" where
  "in_ranges c rs = list_ex (\<lambda>(lo, hi). lo \<le> c \<and> c \<le> hi) rs"

definition space_ranges :: "(nat \<times> nat) list" where
  "space_ranges = [(9, 13), (28, 32), (133, 133), (160, 160), (5760, 5760), (8192, 8202),
     (8232, 8233), (8239, 8239), (8287, 8287), (12288, 12288)]"

definition isspace :: "nat \<Rightarrow> bool" where
  "isspace c = in_ranges c space_ranges"

definition decimal_ranges :: "(nat \<times> nat) list" where
  "decimal_ranges = [(48, 57), (1632, 1641), (1776, 1785), (1984, 1993), (2406, 2415),
     (2534, 2543), (2662, 2671), (2790, 2799), (2918, 2927), (3046, 3055), (3174, 3183),
     (3302, 3311), (3430, 3439), (3558, 3567), (3664, 3673), (3792, 3801), (3872, 3881),
     (4160, 4169), (4240, 4249), (6112, 6121), (6160, 6169), (6470, 6479), (6608, 6617),
     (6784, 6793), (6800, 6809), (6992, 7001), (7088, 7097), (7232, 7241), (7248, 7257),
     (42528, 42537), (43216, 43225), (43264, 43273), (43472, 43481), (43504, 43513),
     (43600, 43609), (44016, 44025), (65296, 65305), (66720, 66729), (68912, 68921),
     (69734, 69743), (69872, 69881), (69942, 69951), (70096, 70105), (70384, 70393),
     (70736, 70745), (70864, 70873), (71248, 71257), (71360, 71369), (71472, 71481),
     (71904, 71913), (72016, 72025), (72784, 72793), (73040, 73049), (73120, 73129),
     (92768, 92777), (92864, 92873), (93008, 93017), (120782, 120831), (123200, 123209),
     (123632, 123641), (125264, 125273), (130032, 130041)]"

fun decimal_in :: "(nat \<times> nat) list \<Rightarrow> nat \<Rightarrow> nat option" where
  "decimal_in [] c = None"
| "decimal_in ((lo, hi) # rs) c =
     (if lo \<le> c \<and> c \<le> hi then Some ((c - lo) mod 10) else decimal_in rs c)"

definition decimal :: "nat \<Rightarrow> nat option" where
  "decimal c = decimal_in decimal_ranges c"

definition digit_only_ranges :: "(nat \<times> nat) list" where
  "digit_only_ranges = [(178, 179), (185, 185), (4969, 4977), (6618, 6618), (8304, 8304),
     (8308, 8313), (8320, 8329), (9312, 9320), (9332, 9340), (9352, 9360), (9450, 9450),
     (9461, 9469), (9471, 9471), (10102, 10110), (10112, 10120), (10122, 10130),
     (68160, 68163), (69216, 69224), (69714, 69722), (127232, 127242)]"

definition isdigit_char :: "nat \<Rightarrow> bool" where
  "isdigit_char c = (decimal c \<noteq> None \<or> in_ranges c digit_only_ranges)"

definition strip :: "pystr \<Rightarrow> pystr" where
  "strip s = rev (dropWhile isspace (rev (dropWhile isspace s)))"

definition isdigit :: "pystr \<Rightarrow> bool" where
  "isdigit s = (s \<noteq> [] \<and> list_all isdigit_char s)"

fun int_digits :: "bool \<Rightarrow> nat \<Rightarrow> pystr \<Rightarrow> nat option" where
  "int_digits prev acc [] = (if prev then Some acc else None)"
| "int_digits prev acc (c # cs) =
     (case decimal c of
        Some d \<Rightarrow> int_digits True (acc * 10 + d) cs
      | None \<Rightarrow> if c = 95 \<and> prev then int_digits False acc cs else None)"

definition int_str :: "pystr \<Rightarrow> error + int" where
  "int_str s =
     (let t = strip s;
          (neg, ds) = (case t of [] \<Rightarrow> (False, [])
                       | c # cs \<Rightarrow> if c = 45 then (True, cs) else if c = 43 then (False, cs)
                                   else (False, c # cs))
      in case int_digits False 0 ds of
           None \<Rightarrow> Inl ValueError
         | Some n \<Rightarrow> Inr (if neg then - int n else int n))"

fun str_nat :: "nat \<Rightarrow> pystr" where
  "str_nat n = (if n < 10 then [48 + n] else str_nat (n div 10) @ [48 + n mod 10])"

definition str_int :: "int \<Rightarrow> pystr" where
  "str_int i = (if i < 0 then 45 # str_nat (nat (- i)) else str_nat (nat i))"

definition re_sub_nondigit :: "pystr \<Rightarrow> pystr" where
  "re_sub_nondigit text = filter (\<lambda>c. decimal c \<noteq> None) text"

definition norm_price :: "pystr \<Rightarrow> error + int option" where
  "norm_price text =
     (if text = [] then Inr None
      else let digits = re_sub_nondigit text
           in if digits \<noteq> [] then map_sum id Some (int_str digits) else Inr None)"

datatype node =
    Tag pystr "pystr list" "pystr option" "node list"
  | NavigableString pystr
  | OtherString pystr

type_synonym located = "node list \<times> node"

fun tag_name :: "node \<Rightarrow> pystr option" where
  "tag_name (Tag n cs h ks) = Some n"
| "tag_name _ = None"

fun tag_classes :: "node \<Rightarrow> pystr list" where
  "tag_classes (Tag n cs h ks) = cs"
| "tag_classes _ = []"

fun tag_href :: "node \<Rightarrow> pystr option" where
  "tag_href (Tag n cs h ks) = h"
| "tag_href _ = None"

fun descendants :: "node list \<Rightarrow> node \<Rightarrow> located list" where
  "descendants anc (Tag n cs h ks) =
     concat (map (\<lambda>k. (Tag n cs h ks # anc, k) # descendants (Tag n cs h ks # anc) k) ks)"
| "descendants anc (NavigableString s) = []"
| "descendants anc (OtherString s) = []"

fun all_strings :: "node \<Rightarrow> pystr list" where
  "all_strings (Tag n cs h ks) = concat (map all_strings ks)"
| "all_strings (NavigableString s) = [s]"
| "all_strings (OtherString s) = []"

fun join :: "pystr \<Rightarrow> pystr list \<Rightarrow> pystr" where
  "join sep [] = []"
| "join sep [s] = s"
| "join sep (s # t # ss) = s @ sep @ join sep (t # ss)"

definition get_text :: "pystr \<Rightarrow> bool \<Rightarrow> located \<Rightarrow> pystr" where
  "get_text separator strp el =
     join separator
       (if strp then filter (\<lambda>s. s \<noteq> []) (map strip (all_strings (snd el)))
        else all_strings (snd el))"

definition first :: "'a list \<Rightarrow> 'a option" where
  "first xs = (case xs of [] \<Rightarrow> None | x # _ \<Rightarrow> Some x)"

definition find_matches :: "pystr \<Rightarrow> pystr option \<Rightarrow> node \<Rightarrow> bool" where
  "find_matches nm cls el =
     (tag_name el = Some nm \<and> (case cls of None \<Rightarrow> True | Some c \<Rightarrow> c \<in> set (tag_classes el)))"

definition find_all :: "pystr \<Rightarrow> pystr option \<Rightarrow> located \<Rightarrow> located list" where
  "find_all nm cls el = filter (\<lambda>d. find_matches nm cls (snd d)) (descendants (fst el) (snd el))"

definition find :: "pystr \<Rightarrow> pystr option \<Rightarrow> located \<Rightarrow> located option" where
  "find nm cls el = first (find_all nm cls el)"

definition or_else :: "'a option \<Rightarrow> 'a option \<Rightarrow> 'a option" where
  "or_else a b = (case a of Some x \<Rightarrow> Some x | None \<Rightarrow> b)"

type_synonym compound = "pystr option \<times> pystr list"

definition lower :: "pystr \<Rightarrow> pystr" where
  "lower s = map (\<lambda>c. if 65 \<le> c \<and> c \<le> 90 then c + 32 else c) s"

definition match_compound :: "compound \<Rightarrow> node \<Rightarrow> bool" where
  "match_compound sel el =
     (case tag_name el of
        None \<Rightarrow> False
      | Some n \<Rightarrow> (case fst sel of None \<Rightarrow> True | Some t \<Rightarrow> lower n = t) \<and>
                  list_all (\<lambda>c. c \<in> set (tag_classes el)) (snd sel))"

fun match_ancestors :: "compound list \<Rightarrow> node list \<Rightarrow> bool" where
  "match_ancestors [] anc = True"
| "match_ancestors (s # ss) [] = False"
| "match_ancestors (s # ss) (a # anc) =
     ((match_compound s a \<and> match_ancestors ss anc) \<or> match_ancestors (s # ss) anc)"

definition match_complex :: "compound list \<Rightarrow> located \<Rightarrow> bool" where
  "match_complex sel el =
     (case rev sel of
        [] \<Rightarrow> False
      | s # ss \<Rightarrow> match_compound s (snd el) \<and> match_ancestors ss (fst el))"

definition select :: "compound list list \<Rightarrow> located \<Rightarrow> located list" where
  "select sels el =
     filter (\<lambda>d. list_ex (\<lambda>sel. match_complex sel d) sels) (descendants (fst el) (snd el))"

definition select_one :: "compound list list \<Rightarrow> located \<Rightarrow> located option" where
  "select_one sels el = first (select sels el)"

record listing =
  name :: pystr
  price :: "int option"
  price_raw :: "pystr option"
  desc :: "pystr option"
  link :: "pystr option"

definition BASE_URL :: pystr where
  "BASE_URL = py ''https://kolesa.kz''"

definition URL :: pystr where
  "URL = BASE_URL @ py ''/cars/''"

definition MAX_PAGES :: int where
  "MAX_PAGES = 200"

definition STOP_AFTER_BLOCKS :: int where
  "STOP_AFTER_BLOCKS = 5"

definition price_of :: "pystr option \<Rightarrow> error + int option" where
  "price_of raw =
     (case raw of None \<Rightarrow> Inr None
      | Some t \<Rightarrow> if t \<noteq> [] then norm_price t else Inr None)"

definition css_title :: "compound list list" where
  "css_title = [[(Some (py ''h5''), [py ''a-card__title'']),
                 (Some (py ''a''), [py ''a-card__link''])]]"

definition css_price :: "compound list list" where
  "css_price = [[(None, [py ''a-card__price''])],
                [(None, [py ''price''])],
                [(None, [py ''price-in-list'']), (None, [py ''price''])]]"

definition css_desc :: "compound list list" where
  "css_desc = [[(None, [py ''a-card__description''])],
               [(None, [py ''a-card__subtitle''])],
               [(None, [py ''card__description''])]]"

definition css_card :: "compound list list" where
  "css_card = [[(Some (py ''div''), [py ''a-card''])]]"

definition card_new :: "located \<Rightarrow> error + listing option" where
  "card_new c =
     (case select_one css_title c of
        None \<Rightarrow> Inr None
      | Some title_a \<Rightarrow>
          (let nm = get_text [] True title_a;
               href = tag_href (snd title_a);
               lnk = (case href of
                        None \<Rightarrow> None
                      | Some h \<Rightarrow> if h \<noteq> [] \<and> startswith h (py ''/'')
                                  then Some (BASE_URL @ h) else Some h);
               price_node = select_one css_price c;
               praw = map_option (get_text (py '' '') True) price_node
           in case price_of praw of
                Inl e \<Rightarrow> Inl e
              | Inr pr \<Rightarrow>
                  (let desc_node = select_one css_desc c;
                       d = map_option (get_text (py '' '') True) desc_node
                   in Inr (Some \<lparr>name = nm, price = pr, price_raw = praw,
                                  desc = d, link = lnk\<rparr>))))"

fun parse_cards_new_loop :: "located list \<Rightarrow> listing list \<Rightarrow> error + listing list" where
  "parse_cards_new_loop [] out = Inr out"
| "parse_cards_new_loop (c # cards) out =
     (case card_new c of
        Inl e \<Rightarrow> Inl e
      | Inr None \<Rightarrow> parse_cards_new_loop cards out
      | Inr (Some r) \<Rightarrow> parse_cards_new_loop cards (out @ [r]))"

definition parse_cards_new :: "located \<Rightarrow> error + listing list" where
  "parse_cards_new soup =
     parse_cards_new_loop (select css_card soup) []"

definition card_old :: "located \<Rightarrow> error + listing option" where
  "card_old b =
     (let title_a = or_else (find (py ''a'') (Some (py ''a-el-info-title'')) b)
                            (find (py ''span'') (Some (py ''a-el-info-title'')) b);
          nm = map_option (get_text [] True) title_a;
          price_node = or_else (find (py ''span'') (Some (py ''a-el-info-price'')) b)
                               (find (py ''span'') (Some (py ''price'')) b);
          praw = map_option (get_text (py '' '') True) price_node
      in case price_of praw of
           Inl e \<Rightarrow> Inl e
         | Inr pr \<Rightarrow>
             (let lnk = (case title_a of
                           None \<Rightarrow> None
                         | Some t \<Rightarrow>
                             (case tag_href (snd t) of
                                None \<Rightarrow> None
                              | Some h \<Rightarrow> if h \<noteq> []
                                          then (if startswith h (py ''/'')
                                                then Some (BASE_URL @ h) else Some h)
                                          else None));
                  desc_node = or_else (find (py ''div'') (Some (py ''a-el-info-description'')) b)
                                      (find (py ''div'') (Some (py ''a-search-description'')) b);
                  d = map_option (get_text (py '' '') True) desc_node
              in case nm of
                   None \<Rightarrow> Inr None
                 | Some n \<Rightarrow> if n \<noteq> []
                             then Inr (Some \<lparr>name = n, price = pr, price_raw = praw,
                                              desc = d, link = lnk\<rparr>)
                             else Inr None))"

fun parse_cards_old_loop :: "located list \<Rightarrow> listing list \<Rightarrow> error + listing list" where
  "parse_cards_old_loop [] out = Inr out"
| "parse_cards_old_loop (b # blocks) out =
     (case card_old b of
        Inl e \<Rightarrow> Inl e
      | Inr None \<Rightarrow> parse_cards_old_loop blocks out
      | Inr (Some r) \<Rightarrow> parse_cards_old_loop blocks (out @ [r]))"

definition parse_cards_old :: "located \<Rightarrow> error + listing list" where
  "parse_cards_old soup =
     parse_cards_old_loop (find_all (py ''div'') (Some (py ''a-elem'')) soup) []"

definition parse_listings :: "(pystr \<Rightarrow> node) \<Rightarrow> pystr \<Rightarrow> error + listing list" where
  "parse_listings BeautifulSoup html =
     (let soup = ([], BeautifulSoup html);
          data = []
      in case parse_cards_new soup of
           Inl e \<Rightarrow> Inl e
         | Inr new \<Rightarrow>
             (let data = data @ new
              in if data = []
                 then (case parse_cards_old soup of
                         Inl e \<Rightarrow> Inl e
                       | Inr old \<Rightarrow> Inr (data @ old))
                 else Inr data))"

fun pymax :: "int list \<Rightarrow> error + int" where
  "pymax [] = Inl ValueError"
| "pymax (x # xs) = Inr (fold max xs x)"

fun pages_count_loop :: "located list \<Rightarrow> int list \<Rightarrow> error + int list" where
  "pages_count_loop [] nums = Inr nums"
| "pages_count_loop (a # as) nums =
     (let t = strip (get_text [] False a)
      in if isdigit t
         then (case int_str t of
                 Inl e \<Rightarrow> Inl e
               | Inr v \<Rightarrow> pages_count_loop as (nums @ [v]))
         else pages_count_loop as nums)"

definition pages_count :: "(pystr \<Rightarrow> node) \<Rightarrow> pystr \<Rightarrow> error + int" where
  "pages_count BeautifulSoup html =
     (let soup = ([], BeautifulSoup html);
          pager = or_else (find (py ''div'') (Some (py ''pager'')) soup)
                          (find (py ''nav'') (Some (py ''pager'')) soup)
      in case pager of
           None \<Rightarrow> Inr 1
         | Some p \<Rightarrow>
             (case pages_count_loop (find_all (py ''a'') None p) [] of
                Inl e \<Rightarrow> Inl e
              | Inr nums \<Rightarrow>
                  if nums = [] then Inr 1
                  else (case pymax nums of
                          Inl e \<Rightarrow> Inl e
                        | Inr m \<Rightarrow> Inr (min m MAX_PAGES))))"

type_synonym filesystem = "pystr \<Rightarrow> pystr option"

definition save_debug_html ::
  "int \<Rightarrow> int \<Rightarrow> pystr \<Rightarrow> pystr \<Rightarrow> filesystem \<Rightarrow> pystr \<times> filesystem" where
  "save_debug_html page_no status_code final_url html fs =
     (let fname = py ''debug_page_'' @ str_int page_no @ py ''.html'';
          f = [];
          f = f @ (py ''<!-- status_code='' @ str_int status_code @ py '' final_url='' @
                   final_url @ py '' -->'' @ [10]);
          f = f @ html
      in (fname, fs(fname \<mapsto> f)))"

definition csv_field :: "pystr \<Rightarrow> pystr" where
  "csv_field s =
     (if list_ex (\<lambda>c. c = 44 \<or> c = 34 \<or> c = 13 \<or> c = 10) s
      then [34] @ concat (map (\<lambda>c. if c = 34 then [34, 34] else [c]) s) @ [34]
      else s)"

definition csv_row :: "pystr list \<Rightarrow> pystr" where
  "csv_row row = join (py '','') (map csv_field row) @ [13, 10]"

definition fieldnames :: "pystr list" where
  "fieldnames = [py ''name'', py ''price'', py ''price_raw'', py ''desc'', py ''link'']"

definition str_opt :: "pystr option \<Rightarrow> pystr" where
  "str_opt v = (case v of None \<Rightarrow> [] | Some s \<Rightarrow> s)"

definition dict_to_list :: "listing \<Rightarrow> pystr list" where
  "dict_to_list r =
     [name r, (case price r of None \<Rightarrow> [] | Some p \<Rightarrow> str_int p),
      str_opt (price_raw r), str_opt (desc r), str_opt (link r)]"

fun writerows :: "listing list \<Rightarrow> pystr \<Rightarrow> pystr" where
  "writerows [] f = f"
| "writerows (r # rows) f = writerows rows (f @ csv_row (dict_to_list r))"

definition save_to_csv :: "listing list \<Rightarrow> pystr \<Rightarrow> filesystem \<Rightarrow> filesystem" where
  "save_to_csv rows filename fs =
     (let f = [65279];
          f = f @ csv_row fieldnames;
          f = writerows rows f
      in fs(filename \<mapsto> f))"

record env =
  fetch :: "pystr \<Rightarrow> error + int \<times> pystr \<times> pystr"
  BeautifulSoup :: "pystr \<Rightarrow> node"

record state =
  all_rows :: "listing list"
  consecutive_blocks :: int
  files :: filesystem
  fetched :: "pystr list"

datatype control = Continue | Break | Raise error

definition loop_body :: "env \<Rightarrow> int \<Rightarrow> state \<Rightarrow> control \<times> state" where
  "loop_body E i st =
     (let page_url = URL @ py ''?page='' @ str_int i;
          st = st\<lparr>fetched := fetched st @ [page_url]\<rparr>
      in case fetch E page_url of
           Inl e \<Rightarrow> if e = RequestException then (Continue, st) else (Raise e, st)
         | Inr (status, final_url, html) \<Rightarrow>
             if \<not> is_listings_page html
             then (let st = st\<lparr>consecutive_blocks := consecutive_blocks st + 1\<rparr>;
                       (fname, fs) = save_debug_html i status final_url html (files st);
                       st = st\<lparr>files := fs\<rparr>
                   in if consecutive_blocks st \<ge> STOP_AFTER_BLOCKS
                      then (Break, st) else (Continue, st))
             else (let st = st\<lparr>consecutive_blocks := 0\<rparr>
                   in case parse_listings (BeautifulSoup E) html of
                        Inl e \<Rightarrow> (Raise e, st)
                      | Inr rows \<Rightarrow>
                          (let st = st\<lparr>all_rows := all_rows st @ rows\<rparr>
                           in if i mod 20 = 0
                              then (Continue, st\<lparr>files := save_to_csv (all_rows st)
                                       (py ''cars_kolesa_partial.csv'') (files st)\<rparr>)
                              else (Continue, st))))"

fun page_loop :: "env \<Rightarrow> int list \<Rightarrow> state \<Rightarrow> control \<times> state" where
  "page_loop E [] st = (Continue, st)"
| "page_loop E (i # is) st =
     (case loop_body E i st of
        (Continue, st') \<Rightarrow> page_loop E is st'
      | (Break, st') \<Rightarrow> (Break, st')
      | (Raise e, st') \<Rightarrow> (Raise e, st'))"

datatype outcome = Returned | Raised error

definition main :: "env \<Rightarrow> filesystem \<Rightarrow> outcome \<times> state" where
  "main E fs =
     (let st = \<lparr>all_rows = [], consecutive_blocks = 0, files = fs, fetched = [URL]\<rparr>
      in case fetch E URL of
           Inl e \<Rightarrow> (Raised e, st)
         | Inr (status, final_url, first_html) \<Rightarrow>
             if \<not> is_listings_page first_html
             then (let (fname, fs') = save_debug_html 1 status final_url first_html (files st)
                   in (Returned, st\<lparr>files := fs'\<rparr>))
             else (case pages_count (BeautifulSoup E) first_html of
                     Inl e \<Rightarrow> (Raised e, st)
                   | Inr last_page \<Rightarrow>
                       (case parse_listings (BeautifulSoup E) first_html of
                          Inl e \<Rightarrow> (Raised e, st)
                        | Inr rows \<Rightarrow>
                            (let st = st\<lparr>all_rows := all_rows st @ rows\<rparr>
                             in case page_loop E [2..last_page] st of
                                  (Raise e, st') \<Rightarrow> (Raised e, st')
                                | (c, st') \<Rightarrow>
                                    (Returned, st'\<lparr>files := save_to_csv (all_rows st')
                                                 (py ''cars_kolesa.csv'') (files st')\<rparr>)))))"

section \<open>Specification-side notions and sample inputs\<close>



definition parsed_as :: "node \<Rightarrow> pystr \<Rightarrow> node" where
  "parsed_as doc html = doc"

definition document :: "node list \<Rightarrow> node" where
  "document body =
     Tag (py ''[document]'') [] None
       [Tag (py ''html'') [] None [Tag (py ''body'') [] None body]]"

definition negotiable :: pystr where
  "negotiable = [1044, 1086, 1075, 1086, 1074, 1086, 1088, 1085, 1072, 1103]"

definition card_priced :: node where
  "card_priced =
     Tag (py ''div'') [py ''a-card''] None
       [Tag (py ''h5'') [py ''a-card__title''] None
          [Tag (py ''a'') [py ''a-card__link''] (Some (py ''/a/show/1''))
             [NavigableString (py '' Toyota Camry '')]],
        Tag (py ''span'') [py ''a-card__price''] None
          [NavigableString ([10] @ py ''  12 500 000 '' @ [8376, 10])]]"


definition card_nameless :: node where
  "card_nameless =
     Tag (py ''div'') [py ''a-card''] None
       [Tag (py ''h5'') [py ''a-card__title''] None
          [Tag (py ''a'') [py ''a-card__link''] (Some (py ''/a/show/3''))
             [Tag (py ''img'') [] None []]],
        Tag (py ''span'') [py ''a-card__price''] None [NavigableString (py ''900 000'')]]"

definition block_negotiable :: node where
  "block_negotiable =
     Tag (py ''div'') [py ''a-elem''] None
       [Tag (py ''a'') [py ''a-el-info-title''] (Some (py ''/a/show/4''))
          [NavigableString (py ''Audi 80'')],
        Tag (py ''span'') [py ''a-el-info-price''] None [NavigableString negotiable]]"



section \<open>Facts about substring search\<close>

lemma startswith_iff: "startswith s p \<longleftrightarrow> (\<exists>t. s = p @ t)"
  by (induction s p rule: startswith.induct) auto

lemma contains_iff: "contains sub s \<longleftrightarrow> (\<exists>p t. s = p @ sub @ t)"
proof (induction s)
  case Nil
  then show ?case by auto
next
  case (Cons c s)
  show ?case
  proof
    assume "contains sub (c # s)"
    then consider "startswith (c # s) sub" | "contains sub s" by auto
    then show "\<exists>p t. c # s = p @ sub @ t"
    proof cases
      case 1
      then obtain t where "c # s = sub @ t" by (auto simp: startswith_iff)
      then have "c # s = [] @ sub @ t" by simp
      then show ?thesis by blast
    next
      case 2
      then obtain p t where "s = p @ sub @ t" using Cons.IH by blast
      then have "c # s = (c # p) @ sub @ t" by simp
      then show ?thesis by blast
    qed
  next
    assume "\<exists>p t. c # s = p @ sub @ t"
    then obtain p t where eq: "c # s = p @ sub @ t" by blast
    show "contains sub (c # s)"
    proof (cases p)
      case Nil
      with eq have "startswith (c # s) sub" by (auto simp: startswith_iff)
      then show ?thesis by simp
    next
      case (Cons a p')
      with eq have "s = p' @ sub @ t" by simp
      then have "contains sub s" using Cons.IH by blast
      then show ?thesis by simp
    qed
  qed
qed

lemma contains_extend: "contains sub h \<Longrightarrow> contains sub (p @ h @ s)"
proof -
  assume "contains sub h"
  then obtain a b where "h = a @ sub @ b" by (auto simp: contains_iff)
  then have "p @ h @ s = (p @ a) @ sub @ (b @ s)" by simp
  then show ?thesis unfolding contains_iff by blast
qed

section \<open>Claims about page detection\<close>

text \<open>
  Claim C8. A body that holds neither the primary markers (\<^verbatim>\<open>a-card__title\<close> together
  with \<^verbatim>\<open>a-card__link\<close>) nor the legacy markers (\<^verbatim>\<open>a-elem\<close> together with
  \<^verbatim>\<open>a-el-info-title\<close> or \<^verbatim>\<open>a-el-info-price\<close>) is not a listings page. Holding a
  marker is stated on the text itself: the body splits into a part before the marker,
  the marker, and a part after it.
\<close>

theorem is_listings_page_without_markers:
  assumes "\<not> ((\<exists>p s. html = p @ py ''a-card__title'' @ s) \<and>
              (\<exists>p s. html = p @ py ''a-card__link'' @ s))"
    and "\<not> ((\<exists>p s. html = p @ py ''a-elem'' @ s) \<and>
             ((\<exists>p s. html = p @ py ''a-el-info-title'' @ s) \<or>
              (\<exists>p s. html = p @ py ''a-el-info-price'' @ s)))"
  shows "\<not> is_listings_page html"
  using assms unfolding is_listings_page_def contains_iff by auto

theorem is_listings_page_without_markers_witness:
  "\<not> is_listings_page (py ''<html>a-card__title: access denied</html>'')"
  using is_listings_page_without_markers [of "py ''<html>a-card__title: access denied</html>''"]
  unfolding contains_iff [symmetric]
  by (simp add: py_def)

text \<open>
  Claim C10. Detection is monotone under containment: a body that is accepted stays
  accepted with any text put before and after it.
\<close>

theorem is_listings_page_monotone:
  "is_listings_page h \<Longrightarrow> is_listings_page (p @ h @ s)"
  unfolding is_listings_page_def
  by (auto split: if_splits intro: contains_extend)

theorem is_listings_page_monotone_witness:
  "is_listings_page (py ''a-card__title a-card__link'') \<and>
   is_listings_page (py ''<script>'' @ py ''a-card__title a-card__link'' @ py ''</script>'')"
  using is_listings_page_monotone
    [of "py ''a-card__title a-card__link''" "py ''<script>''" "py ''</script>''"]
  by (simp add: py_def is_listings_page_def)

section \<open>Facts about numerals and extraction\<close>

















lemmas dom_defs = py_def css_title_def css_price_def css_desc_def css_card_def select_one_def
  select_def find_def find_all_def find_matches_def first_def or_else_def match_complex_def
  match_compound_def lower_def get_text_def strip_def isspace_def in_ranges_def space_ranges_def
  price_of_def norm_price_def re_sub_nondigit_def decimal_def decimal_ranges_def int_str_def
  BASE_URL_def parsed_as_def document_def








theorem parse_listings_nameless_record:
  "parse_listings (parsed_as (document [card_nameless, block_negotiable])) [] =
     Inr [\<lparr>name = [], price = Some 900000, price_raw = Some (py ''900 000''), desc = None,
           link = Some (py ''https://kolesa.kz/a/show/3'')\<rparr>]"
  by (simp add: parse_listings_def parse_cards_new_def card_new_def card_nameless_def
      block_negotiable_def dom_defs)

end
